theory Spec2Isabelle
  imports Complex_Main "HOL-Library.Sublist" "HOL-Library.AList"
begin

section \<open>Values, the outside world and the program state\<close>

text \<open>
  The service of \<^verbatim>\<open>app.py\<close> handles decoded JSON throughout: provider bodies, cached
  results and the holdings of a portfolio request. A Python dict is an association list
  read with \<open>map_of\<close>; Python's \<open>None\<close> is \<open>JNull\<close>. Python floats are idealised
  as real numbers: rounding, overflow, infinities and NaN are not represented.
\<close>

datatype json =
    JNull
  | JBool bool
  | JInt int
  | JFloat real
  | JStr string
  | JArr "json list"
  | JObj "(string \<times> json) list"

text \<open>The upstream requests the program issues, one constructor per URL pattern.\<close>

datatype endpoint =
    CoinGeckoSimplePrice
  | CoinDeskTicker
  | AlphaVantageExchangeRate string string
  | AlphaVantageGlobalQuote string
  | ExchangeRateLatest string

text \<open>
  \<open>requests.get\<close> either raises (\<open>NetworkError\<close>: timeout, connection failure) or
  returns a response with a status code and a body; \<open>body = None\<close> is a body on which
  \<open>response.json()\<close> raises.
\<close>

datatype response = NetworkError | Response int "json option"

text \<open>
  Everything the program takes from outside itself. Times are microseconds (the
  resolution of \<open>datetime\<close>); \<open>clock k\<close> is the value of the \<open>k\<close>-th call of
  \<open>datetime.now()\<close>, \<open>http k\<close> answers the \<open>k\<close>-th upstream request, and
  \<open>float_of_str\<close> is Python's \<open>float\<close> on a string (\<open>None\<close> where it raises).
\<close>

record env =
  clock :: "nat \<Rightarrow> int"
  http :: "nat \<Rightarrow> endpoint \<Rightarrow> response"
  float_of_str :: "string \<Rightarrow> real option"

text \<open>
  The global \<open>cache\<close> dict, with the number of clock readings taken and the log of
  upstream requests issued so far.
\<close>

record state =
  cache :: "string \<rightharpoonup> int \<times> json"
  reads :: nat
  calls :: "endpoint list"

datatype error = KeyError string | TypeError | AttributeError

section \<open>Python primitives used by the program\<close>

text \<open>Truth value of an object in a condition (\<open>if cached_price:\<close>).\<close>

fun truthy :: "json \<Rightarrow> bool" where
  "truthy JNull = False"
| "truthy (JBool b) = b"
| "truthy (JInt i) = (i \<noteq> 0)"
| "truthy (JFloat r) = (r \<noteq> 0)"
| "truthy (JStr s) = (s \<noteq> [])"
| "truthy (JArr xs) = (xs \<noteq> [])"
| "truthy (JObj kv) = (kv \<noteq> [])"

text \<open>
  \<open>d[k]\<close> for a string \<open>k\<close>: \<open>None\<close> where Python raises, and \<open>subscript_error\<close>
  is the exception raised there.
\<close>

fun subscript :: "json \<Rightarrow> string \<Rightarrow> json option" where
  "subscript (JObj kv) k = map_of kv k"
| "subscript _ k = None"

fun subscript_error :: "json \<Rightarrow> string \<Rightarrow> error" where
  "subscript_error (JObj kv) k = KeyError k"
| "subscript_error _ k = TypeError"

text \<open>
  \<open>k in d\<close> for a string \<open>k\<close>: key membership in a dict, element membership in a list,
  substring test in a string, and a TypeError (\<open>None\<close>) on anything else.
\<close>

fun py_in :: "string \<Rightarrow> json \<Rightarrow> bool option" where
  "py_in k (JObj kv) = Some (map_of kv k \<noteq> None)"
| "py_in k (JArr xs) = Some (JStr k \<in> set xs)"
| "py_in k (JStr s) = Some (sublist k s)"
| "py_in k _ = None"

text \<open>\<open>float(x)\<close>; \<open>None\<close> where it raises.\<close>

fun py_float :: "env \<Rightarrow> json \<Rightarrow> real option" where
  "py_float e (JFloat r) = Some r"
| "py_float e (JInt i) = Some (of_int i)"
| "py_float e (JBool b) = Some (if b then 1 else 0)"
| "py_float e (JStr s) = float_of_str e s"
| "py_float e _ = None"

text \<open>\<open>price * fx_rate\<close> for a float \<open>price\<close>; \<open>None\<close> where it raises TypeError.\<close>

fun float_mul :: "real \<Rightarrow> json \<Rightarrow> real option" where
  "float_mul p (JFloat r) = Some (p * r)"
| "float_mul p (JInt i) = Some (p * of_int i)"
| "float_mul p (JBool b) = Some (p * (if b then 1 else 0))"
| "float_mul p _ = None"

text \<open>
  \<open>s.replace(old, new)\<close> for a non-empty \<open>old\<close>, as at every call site: occurrences
  are replaced from left to right without overlap.
\<close>

function str_replace :: "string \<Rightarrow> string \<Rightarrow> string \<Rightarrow> string" where
  "str_replace [] old new = []"
| "str_replace (c # cs) old new =
     (if old \<noteq> [] \<and> prefix old (c # cs)
      then new @ str_replace (drop (length old) (c # cs)) old new
      else c # str_replace cs old new)"
  by pat_completeness auto
termination
  by (relation "measure (\<lambda>(s, old, new). length s)") auto

text \<open>\<open>timedelta.seconds\<close>: the seconds field of a normalised difference of two times.\<close>

definition timedelta_seconds :: "int \<Rightarrow> int" where
  "timedelta_seconds d = (d mod 86400000000) div 1000000"

text \<open>\<open>datetime.now()\<close> and \<open>requests.get\<close>.\<close>

definition now :: "env \<Rightarrow> state \<Rightarrow> int \<times> state" where
  "now e s = (clock e (reads s), s\<lparr>reads := Suc (reads s)\<rparr>)"

definition requests_get :: "env \<Rightarrow> endpoint \<Rightarrow> state \<Rightarrow> response \<times> state" where
  "requests_get e u s = (http e (length (calls s)) u, s\<lparr>calls := calls s @ [u]\<rparr>)"

section \<open>The cache\<close>

definition cache_ttl :: "string \<rightharpoonup> int" where
  "cache_ttl = [''bitcoin'' \<mapsto> 60, ''stock'' \<mapsto> 300, ''fx'' \<mapsto> 3600]"

definition get_cached_value :: "env \<Rightarrow> string \<Rightarrow> string \<Rightarrow> state \<Rightarrow> json \<times> state" where
  "get_cached_value e key category s =
     (case cache s key of
        Some (cached_time, cached_data) \<Rightarrow>
          (case now e s of (t, s') \<Rightarrow>
             let ttl = (case cache_ttl category of Some x \<Rightarrow> x | None \<Rightarrow> 300) in
             if timedelta_seconds (t - cached_time) < ttl then (cached_data, s')
             else (JNull, s'))
      | None \<Rightarrow> (JNull, s))"

definition set_cache :: "env \<Rightarrow> string \<Rightarrow> json \<Rightarrow> state \<Rightarrow> state" where
  "set_cache e key v s =
     (case now e s of (t, s') \<Rightarrow> s'\<lparr>cache := (cache s')(key \<mapsto> (t, v))\<rparr>)"

section \<open>Provider responses\<close>

text \<open>
  The body of each \<open>try\<close> block up to the parsed value, as a function of the response:
  \<open>None\<close> when the block raises (the \<open>except\<close> clause logs and falls through) or
  when one of its conditions is false.
\<close>

definition coingecko_price :: "response \<Rightarrow> json option" where
  "coingecko_price r =
     (case r of
        NetworkError \<Rightarrow> None
      | Response status_code body \<Rightarrow>
          if status_code = 200 then
            (case body of
               None \<Rightarrow> None
             | Some data \<Rightarrow>
                 (case subscript data ''bitcoin'' of
                    None \<Rightarrow> None
                  | Some b \<Rightarrow> subscript b ''aud''))
          else None)"

definition coindesk_price :: "env \<Rightarrow> response \<Rightarrow> real option" where
  "coindesk_price e r =
     (case r of
        NetworkError \<Rightarrow> None
      | Response status_code body \<Rightarrow>
          if status_code = 200 then
            (case body of
               None \<Rightarrow> None
             | Some data \<Rightarrow>
                 (case py_in ''data'' data of
                    None \<Rightarrow> None
                  | Some False \<Rightarrow> None
                  | Some True \<Rightarrow>
                      (case subscript data ''data'' of
                         None \<Rightarrow> None
                       | Some d \<Rightarrow>
                           (case py_in ''BTC'' d of
                              None \<Rightarrow> None
                            | Some False \<Rightarrow> None
                            | Some True \<Rightarrow>
                                (case subscript d ''BTC'' of
                                   None \<Rightarrow> None
                                 | Some btc \<Rightarrow>
                                     (case subscript btc ''price'' of
                                        None \<Rightarrow> None
                                      | Some p \<Rightarrow> py_float e p))))))
          else None)"

text \<open>The Alpha Vantage exchange-rate body, read the same way by the bitcoin and FX lookups.\<close>

definition alphavantage_rate :: "env \<Rightarrow> response \<Rightarrow> real option" where
  "alphavantage_rate e r =
     (case r of
        NetworkError \<Rightarrow> None
      | Response status_code body \<Rightarrow>
          if status_code = 200 then
            (case body of
               None \<Rightarrow> None
             | Some data \<Rightarrow>
                 (case py_in ''Realtime Currency Exchange Rate'' data of
                    None \<Rightarrow> None
                  | Some False \<Rightarrow> None
                  | Some True \<Rightarrow>
                      (case subscript data ''Realtime Currency Exchange Rate'' of
                         None \<Rightarrow> None
                       | Some x \<Rightarrow>
                           (case subscript x ''5. Exchange Rate'' of
                              None \<Rightarrow> None
                            | Some p \<Rightarrow> py_float e p))))
          else None)"

definition alphavantage_quote :: "env \<Rightarrow> response \<Rightarrow> real option" where
  "alphavantage_quote e r =
     (case r of
        NetworkError \<Rightarrow> None
      | Response status_code body \<Rightarrow>
          if status_code = 200 then
            (case body of
               None \<Rightarrow> None
             | Some data \<Rightarrow>
                 (case py_in ''Global Quote'' data of
                    None \<Rightarrow> None
                  | Some False \<Rightarrow> None
                  | Some True \<Rightarrow>
                      (case subscript data ''Global Quote'' of
                         None \<Rightarrow> None
                       | Some q \<Rightarrow>
                           (case py_in ''05. price'' q of
                              None \<Rightarrow> None
                            | Some False \<Rightarrow> None
                            | Some True \<Rightarrow>
                                (case subscript q ''05. price'' of
                                   None \<Rightarrow> None
                                 | Some p \<Rightarrow> py_float e p)))))
          else None)"

definition exchangerate_rate :: "string \<Rightarrow> response \<Rightarrow> json option" where
  "exchangerate_rate to_currency r =
     (case r of
        NetworkError \<Rightarrow> None
      | Response status_code body \<Rightarrow>
          if status_code = 200 then
            (case body of
               None \<Rightarrow> None
             | Some data \<Rightarrow>
                 (case py_in ''rates'' data of
                    None \<Rightarrow> None
                  | Some False \<Rightarrow> None
                  | Some True \<Rightarrow>
                      (case subscript data ''rates'' of
                         None \<Rightarrow> None
                       | Some rates \<Rightarrow>
                           (case py_in to_currency rates of
                              None \<Rightarrow> None
                            | Some False \<Rightarrow> None
                            | Some True \<Rightarrow> subscript rates to_currency))))
          else None)"

section \<open>The FX rate lookup\<close>

definition default_rates :: "string \<rightharpoonup> real" where
  "default_rates =
     [''USD_AUD'' \<mapsto> 1.48, ''EUR_AUD'' \<mapsto> 1.63, ''AUD_USD'' \<mapsto> 0.68, ''AUD_EUR'' \<mapsto> 0.61]"

text \<open>The part of \<open>get_fx_rate_internal\<close> after the cache check (lines 203 to 245).\<close>

definition fetch_fx_rate :: "env \<Rightarrow> string \<Rightarrow> string \<Rightarrow> state \<Rightarrow> json \<times> state" where
  "fetch_fx_rate e from_currency to_currency s0 =
     (let cache_key = ''fx_'' @ from_currency @ ''_'' @ to_currency in
      case requests_get e (ExchangeRateLatest from_currency) s0 of (r1, s1) \<Rightarrow>
        (case exchangerate_rate to_currency r1 of
           Some rate \<Rightarrow> (rate, set_cache e cache_key rate s1)
         | None \<Rightarrow>
             (case requests_get e (AlphaVantageExchangeRate from_currency to_currency) s1 of
                (r2, s2) \<Rightarrow>
                  (case alphavantage_rate e r2 of
                     Some rate \<Rightarrow> (JFloat rate, set_cache e cache_key (JFloat rate) s2)
                   | None \<Rightarrow>
                       let key = from_currency @ ''_'' @ to_currency;
                           rate = (case default_rates key of
                                     Some x \<Rightarrow> JFloat x
                                   | None \<Rightarrow> JFloat 1.5)
                       in (rate, set_cache e cache_key rate s2)))))"

definition get_fx_rate_internal :: "env \<Rightarrow> string \<Rightarrow> string \<Rightarrow> state \<Rightarrow> json \<times> state" where
  "get_fx_rate_internal e from_currency to_currency s =
     (let cache_key = ''fx_'' @ from_currency @ ''_'' @ to_currency in
      case get_cached_value e cache_key ''fx'' s of (cached_rate, s0) \<Rightarrow>
        if truthy cached_rate then (cached_rate, s0)
        else fetch_fx_rate e from_currency to_currency s0)"

section \<open>The bitcoin price lookup\<close>

definition price_result :: "json \<Rightarrow> string \<Rightarrow> json" where
  "price_result price source = JObj [(''price'', price), (''source'', JStr source)]"

text \<open>The part of \<open>get_bitcoin_price\<close> after the cache check (lines 66 to 121).\<close>

definition fetch_bitcoin_price :: "env \<Rightarrow> state \<Rightarrow> json \<times> state" where
  "fetch_bitcoin_price e s0 =
     (case requests_get e CoinGeckoSimplePrice s0 of (r1, s1) \<Rightarrow>
        (case coingecko_price r1 of
           Some price \<Rightarrow>
             let result = price_result price ''CoinGecko''
             in (result, set_cache e ''bitcoin_aud'' result s1)
         | None \<Rightarrow>
             (case requests_get e CoinDeskTicker s1 of (r2, s2) \<Rightarrow>
                (case coindesk_price e r2 of
                   Some price \<Rightarrow>
                     let result = price_result (JFloat price) ''CoinDesk''
                     in (result, set_cache e ''bitcoin_aud'' result s2)
                 | None \<Rightarrow>
                     (case requests_get e (AlphaVantageExchangeRate ''BTC'' ''AUD'') s2 of
                        (r3, s3) \<Rightarrow>
                          (case alphavantage_rate e r3 of
                             Some price \<Rightarrow>
                               let result = price_result (JFloat price) ''Alpha Vantage''
                               in (result, set_cache e ''bitcoin_aud'' result s3)
                           | None \<Rightarrow>
                               let result = price_result (JInt 170000) ''fallback''
                               in (result, set_cache e ''bitcoin_aud'' result s3)))))))"

definition get_bitcoin_price :: "env \<Rightarrow> state \<Rightarrow> json \<times> state" where
  "get_bitcoin_price e s =
     (case get_cached_value e ''bitcoin_aud'' ''bitcoin'' s of (cached_price, s0) \<Rightarrow>
        if truthy cached_price then (cached_price, s0)
        else fetch_bitcoin_price e s0)"

section \<open>The stock price lookup\<close>

definition fallback_prices :: "string \<rightharpoonup> real" where
  "fallback_prices =
     [''VBTC'' \<mapsto> 35.65, ''VTS'' \<mapsto> 476.55, ''VEU'' \<mapsto> 103.02, ''ZETA'' \<mapsto> 44.50,
      ''NUGG.AX'' \<mapsto> 50.83, ''ASML'' \<mapsto> 1570.00, ''MC.PA'' \<mapsto> 1335.00, ''TTD'' \<mapsto> 124.00,
      ''MSTY'' \<mapsto> 41.45, ''SOS.V'' \<mapsto> 12.00, ''SPY'' \<mapsto> 860.00]"

definition stock_result :: "string \<Rightarrow> json \<Rightarrow> string \<Rightarrow> json" where
  "stock_result symbol price source =
     JObj [(''symbol'', JStr symbol), (''price'', price), (''source'', JStr source)]"

text \<open>Lines 164 to 182: the static table, reached when the \<open>try\<close> block did not return.\<close>

definition stock_fallback :: "env \<Rightarrow> string \<Rightarrow> state \<Rightarrow> json \<times> state" where
  "stock_fallback e symbol s =
     (let price = (case fallback_prices symbol of Some x \<Rightarrow> JFloat x | None \<Rightarrow> JInt 100);
          result = stock_result symbol price ''fallback''
      in (result, set_cache e (''stock_'' @ symbol) result s))"

text \<open>Lines 157 to 160: the end of the \<open>try\<close> block.\<close>

definition stock_success :: "env \<Rightarrow> string \<Rightarrow> real \<Rightarrow> state \<Rightarrow> json \<times> state" where
  "stock_success e symbol price s =
     (let result = stock_result symbol (JFloat price) ''Alpha Vantage''
      in (result, set_cache e (''stock_'' @ symbol) result s))"

text \<open>
  Lines 149 to 160: the currency conversion of a parsed quote. A TypeError of
  \<open>price * fx_rate\<close> is raised inside the \<open>try\<close> block, after the FX lookup has
  had its effects, and leads to the static table like every other exception there.
\<close>

definition convert_quote :: "env \<Rightarrow> string \<Rightarrow> real \<Rightarrow> state \<Rightarrow> json \<times> state" where
  "convert_quote e symbol price s1 =
     (if sublist ''.PA'' symbol then
        (case get_fx_rate_internal e ''EUR'' ''AUD'' s1 of (fx_rate, s2) \<Rightarrow>
           (case float_mul price fx_rate of
              Some price' \<Rightarrow> stock_success e symbol price' s2
            | None \<Rightarrow> stock_fallback e symbol s2))
      else if \<not> sublist ''.AX'' symbol \<and> \<not> sublist ''.V'' symbol then
        (case get_fx_rate_internal e ''USD'' ''AUD'' s1 of (fx_rate, s2) \<Rightarrow>
           (case float_mul price fx_rate of
              Some price' \<Rightarrow> stock_success e symbol price' s2
            | None \<Rightarrow> stock_fallback e symbol s2))
      else stock_success e symbol price s1)"

text \<open>Line 135.\<close>

definition clean_symbol :: "string \<Rightarrow> string" where
  "clean_symbol symbol =
     str_replace (str_replace (str_replace symbol ''.AX'' []) ''.PA'' []) ''.V'' []"

text \<open>The part of \<open>get_stock_price\<close> after the cache check (lines 134 to 182).\<close>

definition fetch_stock_price :: "env \<Rightarrow> string \<Rightarrow> state \<Rightarrow> json \<times> state" where
  "fetch_stock_price e symbol s0 =
     (case requests_get e (AlphaVantageGlobalQuote (clean_symbol symbol)) s0 of (r, s1) \<Rightarrow>
        (case alphavantage_quote e r of
           Some price \<Rightarrow> convert_quote e symbol price s1
         | None \<Rightarrow> stock_fallback e symbol s1))"

definition get_stock_price :: "env \<Rightarrow> string \<Rightarrow> state \<Rightarrow> json \<times> state" where
  "get_stock_price e symbol s =
     (let cache_key = ''stock_'' @ symbol in
      case get_cached_value e cache_key ''stock'' s of (cached_data, s0) \<Rightarrow>
        if truthy cached_data then (cached_data, s0)
        else fetch_stock_price e symbol s0)"

section \<open>The portfolio aggregation\<close>

text \<open>
  The body of the response of \<open>get_portfolio_prices\<close>: the \<open>results\<close> dict (an
  association list, written with \<open>AList.update\<close> as \<open>results[k] = v\<close> writes a dict),
  the time read for the timestamp, and the two entries of \<open>cache_info\<close>.
  \<open>jsonify\<close> followed by \<open>get_json\<close> is taken to give back the value it was given.
\<close>

record portfolio =
  prices :: "(string \<times> json) list"
  timestamp :: int
  items_cached :: nat
  bitcoin_source :: json

text \<open>
  The loop over the holdings (lines 267 to 272). Here exceptions are not caught: a
  holding without the subscripted key, or one that is no dict, ends the request with the
  error. \<open>get_stock_price\<close> is modelled on strings, as the route calls it; a symbol that
  is no string is reported as the AttributeError that \<open>symbol.replace\<close> raises.
\<close>

fun stock_prices :: "env \<Rightarrow> json list \<Rightarrow> (string \<times> json) list \<Rightarrow> state
    \<Rightarrow> (error + (string \<times> json) list) \<times> state" where
  "stock_prices e [] results s = (Inr results, s)"
| "stock_prices e (holding # rest) results s =
     (case subscript holding ''type'' of
        None \<Rightarrow> (Inl (subscript_error holding ''type''), s)
      | Some ty \<Rightarrow>
          if ty \<noteq> JStr ''crypto'' then
            (case subscript holding ''symbol'' of
               None \<Rightarrow> (Inl (subscript_error holding ''symbol''), s)
             | Some (JStr symbol) \<Rightarrow>
                 (case get_stock_price e symbol s of (stock_data, s1) \<Rightarrow>
                    (case subscript stock_data ''price'' of
                       None \<Rightarrow> (Inl (subscript_error stock_data ''price''), s1)
                     | Some p \<Rightarrow> stock_prices e rest (AList.update symbol p results) s1))
             | Some _ \<Rightarrow> (Inl AttributeError, s))
          else stock_prices e rest results s)"

definition get_portfolio_prices :: "env \<Rightarrow> json list \<Rightarrow> state \<Rightarrow> (error + portfolio) \<times> state" where
  "get_portfolio_prices e holdings s =
     (case get_bitcoin_price e s of (btc_data, s1) \<Rightarrow>
        (case subscript btc_data ''price'' of
           None \<Rightarrow> (Inl (subscript_error btc_data ''price''), s1)
         | Some btc \<Rightarrow>
             (case get_fx_rate_internal e ''USD'' ''AUD'' s1 of (usd, s2) \<Rightarrow>
                (case get_fx_rate_internal e ''EUR'' ''AUD'' s2 of (eur, s3) \<Rightarrow>
                   let fx_rates = JObj [(''USD'', usd), (''EUR'', eur)];
                       results = AList.update ''fx_rates'' fx_rates
                                   (AList.update ''BTC'' btc [])
                   in
                   (case stock_prices e holdings results s3 of
                      (Inl err, s4) \<Rightarrow> (Inl err, s4)
                    | (Inr results', s4) \<Rightarrow>
                        (case get_stock_price e ''SPY'' s4 of (spy_data, s5) \<Rightarrow>
                           (case subscript spy_data ''price'' of
                              None \<Rightarrow> (Inl (subscript_error spy_data ''price''), s5)
                            | Some spy \<Rightarrow>
                                (case now e s5 of (t, s6) \<Rightarrow>
                                   (Inr \<lparr>prices = AList.update ''SPY'' spy results',
                                         timestamp = t,
                                         items_cached = card (dom (cache s6)),
                                         bitcoin_source =
                                           (case subscript btc_data ''source'' of
                                              Some src \<Rightarrow> src
                                            | None \<Rightarrow> JStr ''unknown'')\<rparr>,
                                    s6)))))))))"

section \<open>Concrete environments and states\<close>

text \<open>
  The state of a freshly started process, and worlds with a clock standing at 0:
  \<open>offline\<close>, in which every request fails; \<open>day_later\<close>, whose clock jumps by
  24 hours after its first reading; \<open>primary_up\<close>, in which the first provider of the
  bitcoin and FX chains answers; \<open>zero_rate\<close>, in which the first FX provider quotes
  the rate 0; \<open>quoting\<close>, in which only the stock provider answers, with the price
  string \<open>10.0\<close>; and \<open>string_rate\<close>, in which moreover the first FX provider
  answers with a rate that is a string. \<open>falsy_cached\<close> is a state whose cache holds a
  falsy value under a key of each lookup.
\<close>

definition fresh :: state where
  "fresh = \<lparr>cache = Map.empty, reads = 0, calls = []\<rparr>"

definition offline :: env where
  "offline = \<lparr>clock = (\<lambda>k. 0), http = (\<lambda>k u. NetworkError), float_of_str = (\<lambda>s. None)\<rparr>"

definition day_later :: env where
  "day_later = \<lparr>clock = (\<lambda>k. if k = 0 then 0 else 86400000000),
                 http = (\<lambda>k u. NetworkError), float_of_str = (\<lambda>s. None)\<rparr>"

definition primary_up :: env where
  "primary_up =
     \<lparr>clock = (\<lambda>k. 0),
      http = (\<lambda>k u. case u of
                CoinGeckoSimplePrice \<Rightarrow>
                  Response 200 (Some (JObj [(''bitcoin'', JObj [(''aud'', JFloat 165000.5)])]))
              | ExchangeRateLatest c \<Rightarrow>
                  Response 200 (Some (JObj [(''rates'', JObj [(''AUD'', JFloat 1.52)])]))
              | _ \<Rightarrow> NetworkError),
      float_of_str = (\<lambda>s. None)\<rparr>"

definition zero_rate :: env where
  "zero_rate =
     \<lparr>clock = (\<lambda>k. 0),
      http = (\<lambda>k u. case u of
                ExchangeRateLatest c \<Rightarrow>
                  Response 200 (Some (JObj [(''rates'', JObj [(''AUD'', JInt 0)])]))
              | _ \<Rightarrow> NetworkError),
      float_of_str = (\<lambda>s. None)\<rparr>"

definition falsy_cached :: state where
  "falsy_cached =
     \<lparr>cache = [''bitcoin_aud'' \<mapsto> (0, JObj []), ''stock_SPY'' \<mapsto> (0, JNull),
               ''fx_USD_AUD'' \<mapsto> (0, JFloat 0)],
      reads = 3, calls = []\<rparr>"



section \<open>Notions used to state the properties\<close>

text \<open>The TTL that \<open>get_cached_value\<close> applies to a category, in seconds.\<close>

definition ttl_of :: "string \<Rightarrow> int" where
  "ttl_of category = (case cache_ttl category of Some x \<Rightarrow> x | None \<Rightarrow> 300)"

text \<open>
  A lookup misses the cache when the value its cache check reads is not truthy: no
  entry, an entry the TTL test rejects, or a falsy cached value.
\<close>

definition cache_miss :: "env \<Rightarrow> string \<Rightarrow> string \<Rightarrow> state \<Rightarrow> bool" where
  "cache_miss e key category s = (\<not> truthy (fst (get_cached_value e key category s)))"

text \<open>
  The outcome \<open>r\<close> of a stock lookup on a miss is a result dict for the symbol, and
  that dict is the entry under the symbol's cache key.
\<close>

definition stock_entry :: "string \<Rightarrow> json \<times> state \<Rightarrow> bool" where
  "stock_entry symbol r =
     ((\<exists>p src. fst r = stock_result symbol p src) \<and>
      (\<exists>T. cache (snd r) (''stock_'' @ symbol) = Some (T, fst r)))"

text \<open>
  The state in which a stock lookup that missed the cache holds the provider's response:
  after the cache check and the quote request.
\<close>

definition quoted :: "env \<Rightarrow> string \<Rightarrow> state \<Rightarrow> state" where
  "quoted e symbol s =
     snd (requests_get e (AlphaVantageGlobalQuote (clean_symbol symbol))
            (snd (get_cached_value e (''stock_'' @ symbol) ''stock'' s)))"


text \<open>
  The cache as the service builds it: every entry under the bitcoin key or a stock key
  is a dict with a \<open>price\<close>.
\<close>

definition priced :: "json \<Rightarrow> bool" where
  "priced v = (subscript v ''price'' \<noteq> None)"

definition cache_ok :: "(string \<rightharpoonup> int \<times> json) \<Rightarrow> bool" where
  "cache_ok c =
     (\<forall>k t v. c k = Some (t, v) \<longrightarrow> (k = ''bitcoin_aud'' \<or> prefix ''stock_'' k) \<longrightarrow> priced v)"

text \<open>
  A holding the loop can process: a dict with a \<open>type\<close> and, unless the type is
  \<open>crypto\<close>, a string \<open>symbol\<close>.
\<close>

definition holding_ok :: "json \<Rightarrow> bool" where
  "holding_ok h =
     (case subscript h ''type'' of
        None \<Rightarrow> False
      | Some ty \<Rightarrow>
          ty = JStr ''crypto'' \<or>
          (case subscript h ''symbol'' of Some (JStr symbol) \<Rightarrow> True | _ \<Rightarrow> False))"

text \<open>The symbols of the holdings whose type is not \<open>crypto\<close>.\<close>

fun stock_symbols :: "json list \<Rightarrow> string list" where
  "stock_symbols [] = []"
| "stock_symbols (h # hs) =
     (case subscript h ''type'' of
        None \<Rightarrow> stock_symbols hs
      | Some ty \<Rightarrow>
          if ty \<noteq> JStr ''crypto'' then
            (case subscript h ''symbol'' of
               Some (JStr symbol) \<Rightarrow> symbol # stock_symbols hs
             | _ \<Rightarrow> stock_symbols hs)
          else stock_symbols hs)"

section \<open>Effects of the primitives\<close>

lemma cache_get_cached_value [simp]:
  "cache (snd (get_cached_value e key category s)) = cache s"
  by (simp add: get_cached_value_def now_def Let_def split: option.splits prod.splits)

lemma calls_get_cached_value [simp]:
  "calls (snd (get_cached_value e key category s)) = calls s"
  by (simp add: get_cached_value_def now_def Let_def split: option.splits prod.splits)

lemma cache_set_cache [simp]:
  "cache (set_cache e key v s) = (cache s)(key \<mapsto> (clock e (reads s), v))"
  by (simp add: set_cache_def now_def)

lemma calls_set_cache [simp]: "calls (set_cache e key v s) = calls s"
  by (simp add: set_cache_def now_def)

lemma reads_set_cache [simp]: "reads (set_cache e key v s) = Suc (reads s)"
  by (simp add: set_cache_def now_def)

lemma get_cached_value_entry:
  "cache s key = Some (T, v) \<Longrightarrow>
   get_cached_value e key category s =
     (if timedelta_seconds (clock e (reads s) - T) < ttl_of category then v else JNull,
      s\<lparr>reads := Suc (reads s)\<rparr>)"
  by (simp add: get_cached_value_def now_def ttl_of_def)

lemma get_cached_value_absent:
  "cache s key = None \<Longrightarrow> get_cached_value e key category s = (JNull, s)"
  by (simp add: get_cached_value_def)

lemma ttl_of_simps [simp]:
  "ttl_of ''bitcoin'' = 60" "ttl_of ''stock'' = 300" "ttl_of ''fx'' = 3600"
  by (simp_all add: ttl_of_def cache_ttl_def)

lemma ttl_of_bounds: "0 < ttl_of category" "ttl_of category \<le> 3600"
  by (simp_all add: ttl_of_def cache_ttl_def)

lemma div_million_less: "(d::int) div 1000000 < n \<longleftrightarrow> d < n * 1000000"
proof -
  have "d = 1000000 * (d div 1000000) + d mod 1000000"
    by simp
  moreover have "0 \<le> d mod 1000000" "d mod 1000000 < 1000000"
    by simp_all
  ultimately show ?thesis
    by linarith
qed

lemma timedelta_seconds_less:
  assumes "0 \<le> d" "d < 86400000000"
  shows "timedelta_seconds d < n \<longleftrightarrow> d < n * 1000000"
  using assms by (simp add: timedelta_seconds_def div_million_less)

text \<open>
  For an entry less than one day old the check is the one the comments of
  \<open>cache_ttl\<close> describe: the entry is served exactly while its age is below the TTL.
\<close>

lemma get_cached_value_within_one_day:
  assumes "cache s key = Some (T, v)"
    and "0 \<le> clock e (reads s) - T" "clock e (reads s) - T < 86400000000"
  shows "fst (get_cached_value e key category s) =
           (if clock e (reads s) - T < ttl_of category * 1000000 then v else JNull)"
  using assms by (simp add: get_cached_value_entry timedelta_seconds_less)

lemma cache_miss_absent: "cache s key = None \<Longrightarrow> cache_miss e key category s"
  by (simp add: cache_miss_def get_cached_value_absent)

lemma cache_miss_expired:
  assumes "cache s key = Some (T, v)"
    and "ttl_of category * 1000000 \<le> clock e (reads s) - T"
    and "clock e (reads s) - T < 86400000000"
  shows "cache_miss e key category s"
proof -
  have "0 \<le> clock e (reads s) - T"
    using assms(2) ttl_of_bounds(1) [of category] by linarith
  then show ?thesis
    using assms by (simp add: cache_miss_def get_cached_value_within_one_day)
qed

text \<open>An entry whose age is a whole number of days passes the TTL test of every category.\<close>

lemma get_cached_value_whole_days:
  assumes "cache s key = Some (T, v)" and "clock e (reads s) - T = n * 86400000000"
  shows "fst (get_cached_value e key category s) = v"
  using assms ttl_of_bounds(1) [of category]
  by (simp add: get_cached_value_entry timedelta_seconds_def)

section \<open>Properties of the cache\<close>

text \<open>
  Claim C9: \<open>get_cached_value\<close> never modifies the cache (an expired entry stays
  where it is), and \<open>set_cache\<close> replaces the entry under its key by the new pair of
  timestamp and value and leaves the entry of every other key unchanged.
\<close>

theorem cache_frame:
  "cache (snd (get_cached_value e key category s)) = cache s \<and>
   cache (set_cache e key v s) key = Some (clock e (reads s), v) \<and>
   (\<forall>k. k \<noteq> key \<longrightarrow> cache (set_cache e key v s) k = cache s k)"
  by simp

theorem cache_frame_witness:
  "''fx_USD_AUD'' \<noteq> ''bitcoin_aud'' \<and>
   cache (set_cache offline ''bitcoin_aud'' JNull
            (set_cache offline ''fx_USD_AUD'' (JFloat 1.48) fresh)) ''fx_USD_AUD''
     = Some (0, JFloat 1.48) \<and>
   cache (set_cache offline ''fx_USD_AUD'' (JFloat 1.5)
            (set_cache offline ''fx_USD_AUD'' (JFloat 1.48) fresh)) ''fx_USD_AUD''
     = Some (0, JFloat 1.5)"
  using cache_frame [of offline "''bitcoin_aud''" "''fx''"
      "set_cache offline ''fx_USD_AUD'' (JFloat 1.48) fresh" JNull]
    cache_frame [of offline "''fx_USD_AUD''" "''fx''"
      "set_cache offline ''fx_USD_AUD'' (JFloat 1.48) fresh" "JFloat 1.5"]
  by (simp add: offline_def fresh_def)

text \<open>
  Claim C1: a value set at time \<open>T\<close> is absent for every read at \<open>T'\<close> with
  \<open>T' - T\<close> at least the TTL of the category. The code compares the \<open>seconds\<close>
  field of the age, which starts again at 0 every 24 hours: an FX rate (TTL 3600 s)
  stored at time 0 and read exactly one day later is served from the cache.
\<close>

theorem day_old_entry_served:
  "clock day_later 1 - clock day_later 0 = 86400 * 1000000 \<and>
   cache (set_cache day_later ''fx_USD_AUD'' (JFloat 1.48) fresh) ''fx_USD_AUD''
     = Some (clock day_later 0, JFloat 1.48) \<and>
   reads (set_cache day_later ''fx_USD_AUD'' (JFloat 1.48) fresh) = 1 \<and>
   fst (get_cached_value day_later ''fx_USD_AUD'' ''fx''
          (set_cache day_later ''fx_USD_AUD'' (JFloat 1.48) fresh)) = JFloat 1.48"
  by (simp add: day_later_def fresh_def get_cached_value_def set_cache_def now_def
      cache_ttl_def timedelta_seconds_def)

section \<open>Provider failures\<close>

lemma provider_network_error [simp]:
  "coingecko_price NetworkError = None"
  "coindesk_price e NetworkError = None"
  "alphavantage_rate e NetworkError = None"
  "alphavantage_quote e NetworkError = None"
  "exchangerate_rate t NetworkError = None"
  by (simp_all add: coingecko_price_def coindesk_price_def alphavantage_rate_def
      alphavantage_quote_def exchangerate_rate_def)

lemma provider_bad_status:
  assumes "status_code \<noteq> 200"
  shows "coingecko_price (Response status_code body) = None"
    and "coindesk_price e (Response status_code body) = None"
    and "alphavantage_rate e (Response status_code body) = None"
    and "alphavantage_quote e (Response status_code body) = None"
    and "exchangerate_rate t (Response status_code body) = None"
  using assms
  by (simp_all add: coingecko_price_def coindesk_price_def alphavantage_rate_def
      alphavantage_quote_def exchangerate_rate_def)

lemma provider_bad_body [simp]:
  "coingecko_price (Response status_code None) = None"
  "coindesk_price e (Response status_code None) = None"
  "alphavantage_rate e (Response status_code None) = None"
  "alphavantage_quote e (Response status_code None) = None"
  "exchangerate_rate t (Response status_code None) = None"
  by (simp_all add: coingecko_price_def coindesk_price_def alphavantage_rate_def
      alphavantage_quote_def exchangerate_rate_def)

section \<open>The lookups on a miss and on a hit\<close>

lemma requests_get_simp:
  "requests_get e u s = (http e (length (calls s)) u, s\<lparr>calls := calls s @ [u]\<rparr>)"
  by (simp add: requests_get_def)

lemma get_bitcoin_price_miss:
  "cache_miss e ''bitcoin_aud'' ''bitcoin'' s \<Longrightarrow>
   get_bitcoin_price e s =
     fetch_bitcoin_price e (snd (get_cached_value e ''bitcoin_aud'' ''bitcoin'' s))"
  by (auto simp add: get_bitcoin_price_def cache_miss_def split: prod.splits)

lemma get_bitcoin_price_hit:
  "\<not> cache_miss e ''bitcoin_aud'' ''bitcoin'' s \<Longrightarrow>
   get_bitcoin_price e s = get_cached_value e ''bitcoin_aud'' ''bitcoin'' s"
  by (auto simp add: get_bitcoin_price_def cache_miss_def split: prod.splits)

lemma get_fx_rate_internal_miss:
  "cache_miss e (''fx_'' @ f @ ''_'' @ t) ''fx'' s \<Longrightarrow>
   get_fx_rate_internal e f t s =
     fetch_fx_rate e f t (snd (get_cached_value e (''fx_'' @ f @ ''_'' @ t) ''fx'' s))"
  by (auto simp add: get_fx_rate_internal_def cache_miss_def split: prod.splits)

lemma get_fx_rate_internal_hit:
  "\<not> cache_miss e (''fx_'' @ f @ ''_'' @ t) ''fx'' s \<Longrightarrow>
   get_fx_rate_internal e f t s = get_cached_value e (''fx_'' @ f @ ''_'' @ t) ''fx'' s"
  by (auto simp add: get_fx_rate_internal_def cache_miss_def split: prod.splits)

lemma get_stock_price_miss:
  "cache_miss e (''stock_'' @ symbol) ''stock'' s \<Longrightarrow>
   get_stock_price e symbol s =
     fetch_stock_price e symbol (snd (get_cached_value e (''stock_'' @ symbol) ''stock'' s))"
  by (auto simp add: get_stock_price_def cache_miss_def split: prod.splits)

lemma get_stock_price_hit:
  "\<not> cache_miss e (''stock_'' @ symbol) ''stock'' s \<Longrightarrow>
   get_stock_price e symbol s = get_cached_value e (''stock_'' @ symbol) ''stock'' s"
  by (auto simp add: get_stock_price_def cache_miss_def split: prod.splits)

lemma fetch_bitcoin_price_first:
  assumes "coingecko_price (http e (length (calls s)) CoinGeckoSimplePrice) = Some p"
  shows "fetch_bitcoin_price e s =
           (price_result p ''CoinGecko'',
            set_cache e ''bitcoin_aud'' (price_result p ''CoinGecko'')
              (s\<lparr>calls := calls s @ [CoinGeckoSimplePrice]\<rparr>))"
  using assms by (simp add: fetch_bitcoin_price_def requests_get_simp Let_def)

lemma fetch_bitcoin_price_fallback:
  assumes "coingecko_price (http e (length (calls s)) CoinGeckoSimplePrice) = None"
    and "coindesk_price e (http e (Suc (length (calls s))) CoinDeskTicker) = None"
    and "alphavantage_rate e
           (http e (Suc (Suc (length (calls s)))) (AlphaVantageExchangeRate ''BTC'' ''AUD'')) = None"
  shows "fetch_bitcoin_price e s =
           (price_result (JInt 170000) ''fallback'',
            set_cache e ''bitcoin_aud'' (price_result (JInt 170000) ''fallback'')
              (s\<lparr>calls := calls s @ [CoinGeckoSimplePrice, CoinDeskTicker,
                                       AlphaVantageExchangeRate ''BTC'' ''AUD'']\<rparr>))"
  using assms by (simp add: fetch_bitcoin_price_def requests_get_simp Let_def)

lemma fetch_bitcoin_price_shape:
  "\<exists>p src rest. fetch_bitcoin_price e s =
     (price_result p src,
      set_cache e ''bitcoin_aud'' (price_result p src)
        (s\<lparr>calls := calls s @ CoinGeckoSimplePrice # rest\<rparr>))"
  by (auto simp add: fetch_bitcoin_price_def requests_get_simp Let_def split: option.splits)

lemma fetch_fx_rate_first:
  assumes "exchangerate_rate t (http e (length (calls s)) (ExchangeRateLatest f)) = Some rate"
  shows "fetch_fx_rate e f t s =
           (rate, set_cache e (''fx_'' @ f @ ''_'' @ t) rate
                    (s\<lparr>calls := calls s @ [ExchangeRateLatest f]\<rparr>))"
  using assms by (simp add: fetch_fx_rate_def requests_get_simp Let_def)

lemma fetch_fx_rate_fallback:
  assumes "exchangerate_rate t (http e (length (calls s)) (ExchangeRateLatest f)) = None"
    and "alphavantage_rate e
           (http e (Suc (length (calls s))) (AlphaVantageExchangeRate f t)) = None"
  shows "fetch_fx_rate e f t s =
           (JFloat (case default_rates (f @ ''_'' @ t) of Some x \<Rightarrow> x | None \<Rightarrow> 1.5),
            set_cache e (''fx_'' @ f @ ''_'' @ t)
              (JFloat (case default_rates (f @ ''_'' @ t) of Some x \<Rightarrow> x | None \<Rightarrow> 1.5))
              (s\<lparr>calls := calls s @ [ExchangeRateLatest f, AlphaVantageExchangeRate f t]\<rparr>))"
  using assms by (simp add: fetch_fx_rate_def requests_get_simp Let_def split: option.splits)

lemma fetch_fx_rate_shape:
  "\<exists>rate rest. fetch_fx_rate e f t s =
     (rate,
      set_cache e (''fx_'' @ f @ ''_'' @ t) rate
        (s\<lparr>calls := calls s @ ExchangeRateLatest f # rest\<rparr>))"
  by (auto simp add: fetch_fx_rate_def requests_get_simp Let_def split: option.splits)

section \<open>Fallback values and provider priority\<close>



text \<open>
  Claim C3: on a cache miss, if the first provider of the bitcoin chain yields a price,
  the lookup returns that provider's result and the log of upstream requests grows by
  that one request only; the same holds for the first provider of the FX chain.
\<close>

theorem provider_priority:
  "(cache_miss e ''bitcoin_aud'' ''bitcoin'' s \<and>
    coingecko_price (http e (length (calls s)) CoinGeckoSimplePrice) = Some p \<longrightarrow>
      fst (get_bitcoin_price e s) = JObj [(''price'', p), (''source'', JStr ''CoinGecko'')] \<and>
      calls (snd (get_bitcoin_price e s)) = calls s @ [CoinGeckoSimplePrice]) \<and>
   (cache_miss e (''fx_'' @ f @ ''_'' @ t) ''fx'' s \<and>
    exchangerate_rate t (http e (length (calls s)) (ExchangeRateLatest f)) = Some rate \<longrightarrow>
      fst (get_fx_rate_internal e f t s) = rate \<and>
      calls (snd (get_fx_rate_internal e f t s)) = calls s @ [ExchangeRateLatest f])"
  by (simp add: get_bitcoin_price_miss fetch_bitcoin_price_first price_result_def
      get_fx_rate_internal_miss fetch_fx_rate_first)

theorem provider_priority_witness:
  "cache_miss primary_up ''bitcoin_aud'' ''bitcoin'' fresh \<and>
   coingecko_price (http primary_up (length (calls fresh)) CoinGeckoSimplePrice)
     = Some (JFloat 165000.5) \<and>
   fst (get_bitcoin_price primary_up fresh) =
     JObj [(''price'', JFloat 165000.5), (''source'', JStr ''CoinGecko'')] \<and>
   calls (snd (get_bitcoin_price primary_up fresh)) = [CoinGeckoSimplePrice] \<and>
   cache_miss primary_up (''fx_'' @ ''USD'' @ ''_'' @ ''AUD'') ''fx'' fresh \<and>
   exchangerate_rate ''AUD'' (http primary_up (length (calls fresh)) (ExchangeRateLatest ''USD''))
     = Some (JFloat 1.52) \<and>
   fst (get_fx_rate_internal primary_up ''USD'' ''AUD'' fresh) = JFloat 1.52 \<and>
   calls (snd (get_fx_rate_internal primary_up ''USD'' ''AUD'' fresh))
     = [ExchangeRateLatest ''USD'']"
proof -
  have m1: "cache_miss primary_up ''bitcoin_aud'' ''bitcoin'' fresh"
    and m2: "cache_miss primary_up (''fx_'' @ ''USD'' @ ''_'' @ ''AUD'') ''fx'' fresh"
    by (simp_all add: cache_miss_absent fresh_def)
  have p1: "coingecko_price (http primary_up (length (calls fresh)) CoinGeckoSimplePrice)
              = Some (JFloat 165000.5)"
    by (simp add: primary_up_def coingecko_price_def)
  have p2: "exchangerate_rate ''AUD''
              (http primary_up (length (calls fresh)) (ExchangeRateLatest ''USD''))
              = Some (JFloat 1.52)"
    by (simp add: primary_up_def exchangerate_rate_def)
  have "calls fresh = []"
    by (simp add: fresh_def)
  then show ?thesis
    using m1 m2 p1 p2
      provider_priority [of primary_up fresh "JFloat 165000.5" "''USD''" "''AUD''" "JFloat 1.52"]
    by simp
qed

text \<open>
  Claim C6: when both FX providers fail on a cache miss, the lookup returns the entry
  of the static table for the pair string \<open>from_to\<close> when there is one (1.48 for
  USD and AUD) and 1.5 otherwise, and has cached the rate it returns.
\<close>

theorem fx_fallback:
  assumes "cache_miss e (''fx_'' @ f @ ''_'' @ t) ''fx'' s"
    and "exchangerate_rate t (http e (length (calls s)) (ExchangeRateLatest f)) = None"
    and "alphavantage_rate e
           (http e (Suc (length (calls s))) (AlphaVantageExchangeRate f t)) = None"
  shows "fst (get_fx_rate_internal e f t s) =
           JFloat (case default_rates (f @ ''_'' @ t) of Some x \<Rightarrow> x | None \<Rightarrow> 1.5) \<and>
         cache (snd (get_fx_rate_internal e f t s)) (''fx_'' @ f @ ''_'' @ t) =
           Some (clock e (reads (snd (get_cached_value e (''fx_'' @ f @ ''_'' @ t) ''fx'' s))),
                 fst (get_fx_rate_internal e f t s)) \<and>
         (f = ''USD'' \<and> t = ''AUD'' \<longrightarrow> fst (get_fx_rate_internal e f t s) = JFloat 1.48)"
  using assms
  by (auto simp add: get_fx_rate_internal_miss fetch_fx_rate_fallback default_rates_def)

theorem fx_fallback_witness:
  "cache_miss offline (''fx_'' @ ''USD'' @ ''_'' @ ''AUD'') ''fx'' fresh \<and>
   fst (get_fx_rate_internal offline ''USD'' ''AUD'' fresh) = JFloat 1.48 \<and>
   cache (snd (get_fx_rate_internal offline ''USD'' ''AUD'' fresh)) ''fx_USD_AUD''
     = Some (0, JFloat 1.48) \<and>
   cache_miss offline (''fx_'' @ ''GBP'' @ ''_'' @ ''AUD'') ''fx'' fresh \<and>
   fst (get_fx_rate_internal offline ''GBP'' ''AUD'' fresh) = JFloat 1.5"
proof -
  have m1: "cache_miss offline (''fx_'' @ ''USD'' @ ''_'' @ ''AUD'') ''fx'' fresh"
    and m2: "cache_miss offline (''fx_'' @ ''GBP'' @ ''_'' @ ''AUD'') ''fx'' fresh"
    by (simp_all add: cache_miss_absent fresh_def)
  have down: "http offline k u = NetworkError" for k u
    by (simp add: offline_def)
  have zero: "clock offline k = 0" for k
    by (simp add: offline_def)
  show ?thesis
    using m1 m2 fx_fallback [OF m1] fx_fallback [OF m2]
    by (simp add: down zero default_rates_def)
qed

section \<open>Upstream requests of the lookups\<close>

lemma get_cached_value_falsy:
  assumes "cache s key = Some (T, v)" "\<not> truthy v"
  shows "cache_miss e key category s"
    and "snd (get_cached_value e key category s) = s\<lparr>reads := Suc (reads s)\<rparr>"
  using assms by (simp_all add: cache_miss_def get_cached_value_entry)

lemma get_cached_value_fresh_entry:
  assumes "cache s key = Some (T, v)"
    and "0 \<le> clock e (reads s) - T" "clock e (reads s) - T < ttl_of category * 1000000"
  shows "get_cached_value e key category s = (v, s\<lparr>reads := Suc (reads s)\<rparr>)"
proof -
  have "clock e (reads s) - T < 86400000000"
    using assms(3) ttl_of_bounds(2) [of category] by linarith
  then show ?thesis
    using assms by (simp add: get_cached_value_entry timedelta_seconds_less)
qed

lemma calls_stock_success [simp]: "calls (snd (stock_success e symbol p s)) = calls s"
  by (simp add: stock_success_def Let_def)

lemma calls_stock_fallback [simp]: "calls (snd (stock_fallback e symbol s)) = calls s"
  by (simp add: stock_fallback_def Let_def)

lemma calls_get_fx_rate_internal:
  "\<exists>rest. calls (snd (get_fx_rate_internal e f t s)) = calls s @ rest"
proof (cases "cache_miss e (''fx_'' @ f @ ''_'' @ t) ''fx'' s")
  case True
  obtain rate rest where
    "fetch_fx_rate e f t (snd (get_cached_value e (''fx_'' @ f @ ''_'' @ t) ''fx'' s)) =
       (rate, set_cache e (''fx_'' @ f @ ''_'' @ t) rate
          ((snd (get_cached_value e (''fx_'' @ f @ ''_'' @ t) ''fx'' s))
             \<lparr>calls := calls (snd (get_cached_value e (''fx_'' @ f @ ''_'' @ t) ''fx'' s))
                         @ ExchangeRateLatest f # rest\<rparr>))"
    using fetch_fx_rate_shape by blast
  then show ?thesis
    using True by (simp add: get_fx_rate_internal_miss)
next
  case False
  then show ?thesis
    by (simp add: get_fx_rate_internal_hit)
qed

lemma calls_convert_quote:
  "\<exists>rest. calls (snd (convert_quote e symbol p s)) = calls s @ rest"
proof -
  obtain r1 where r1: "calls (snd (get_fx_rate_internal e ''EUR'' ''AUD'' s)) = calls s @ r1"
    using calls_get_fx_rate_internal by blast
  obtain r2 where r2: "calls (snd (get_fx_rate_internal e ''USD'' ''AUD'' s)) = calls s @ r2"
    using calls_get_fx_rate_internal by blast
  show ?thesis
    using r1 r2
    by (auto simp add: convert_quote_def split: prod.splits option.splits)
qed

lemma calls_fetch_stock_price:
  "\<exists>rest. calls (snd (fetch_stock_price e symbol s)) =
      calls s @ AlphaVantageGlobalQuote (clean_symbol symbol) # rest"
proof -
  let ?u = "AlphaVantageGlobalQuote (clean_symbol symbol)"
  let ?s1 = "s\<lparr>calls := calls s @ [?u]\<rparr>"
  show ?thesis
  proof (cases "alphavantage_quote e (http e (length (calls s)) ?u)")
    case None
    then show ?thesis
      by (simp add: fetch_stock_price_def requests_get_simp)
  next
    case (Some p)
    obtain rest where "calls (snd (convert_quote e symbol p ?s1)) = calls ?s1 @ rest"
      using calls_convert_quote by blast
    then show ?thesis
      using Some by (simp add: fetch_stock_price_def requests_get_simp)
  qed
qed

section \<open>Falsy cached values\<close>

text \<open>
  Claim C10: a cached value that is falsy (a rate or price equal to 0, an empty dict,
  \<open>None\<close>) is a miss for the cache check of each of the three lookups, whatever its
  age: the lookup returns what its provider chain computes, and the first provider of the
  chain is requested again.
\<close>

theorem falsy_cached_value_refetched:
  "(cache s ''bitcoin_aud'' = Some (T, v) \<and> \<not> truthy v \<longrightarrow>
      cache_miss e ''bitcoin_aud'' ''bitcoin'' s \<and>
      get_bitcoin_price e s = fetch_bitcoin_price e (s\<lparr>reads := Suc (reads s)\<rparr>) \<and>
      (\<exists>rest. calls (snd (get_bitcoin_price e s)) = calls s @ CoinGeckoSimplePrice # rest)) \<and>
   (cache s (''stock_'' @ symbol) = Some (T, v) \<and> \<not> truthy v \<longrightarrow>
      cache_miss e (''stock_'' @ symbol) ''stock'' s \<and>
      get_stock_price e symbol s = fetch_stock_price e symbol (s\<lparr>reads := Suc (reads s)\<rparr>) \<and>
      (\<exists>rest. calls (snd (get_stock_price e symbol s)) =
          calls s @ AlphaVantageGlobalQuote (clean_symbol symbol) # rest)) \<and>
   (cache s (''fx_'' @ f @ ''_'' @ t) = Some (T, v) \<and> \<not> truthy v \<longrightarrow>
      cache_miss e (''fx_'' @ f @ ''_'' @ t) ''fx'' s \<and>
      get_fx_rate_internal e f t s = fetch_fx_rate e f t (s\<lparr>reads := Suc (reads s)\<rparr>) \<and>
      (\<exists>rest. calls (snd (get_fx_rate_internal e f t s)) =
          calls s @ ExchangeRateLatest f # rest))"
proof (intro conjI impI; elim conjE)
  assume h: "cache s ''bitcoin_aud'' = Some (T, v)" "\<not> truthy v"
  note m = get_cached_value_falsy [OF h, of e "''bitcoin''"]
  show "cache_miss e ''bitcoin_aud'' ''bitcoin'' s"
    by (rule m)
  show eq: "get_bitcoin_price e s = fetch_bitcoin_price e (s\<lparr>reads := Suc (reads s)\<rparr>)"
    by (simp add: get_bitcoin_price_miss m)
  show "\<exists>rest. calls (snd (get_bitcoin_price e s)) = calls s @ CoinGeckoSimplePrice # rest"
    using fetch_bitcoin_price_shape [of e "s\<lparr>reads := Suc (reads s)\<rparr>"]
    by (auto simp add: eq)
next
  assume h: "cache s (''stock_'' @ symbol) = Some (T, v)" "\<not> truthy v"
  note m = get_cached_value_falsy [OF h, of e "''stock''"]
  show "cache_miss e (''stock_'' @ symbol) ''stock'' s"
    by (rule m)
  show eq: "get_stock_price e symbol s =
              fetch_stock_price e symbol (s\<lparr>reads := Suc (reads s)\<rparr>)"
    by (simp only: get_stock_price_miss [OF m(1)] m(2))
  show "\<exists>rest. calls (snd (get_stock_price e symbol s)) =
          calls s @ AlphaVantageGlobalQuote (clean_symbol symbol) # rest"
    using calls_fetch_stock_price [of e symbol "s\<lparr>reads := Suc (reads s)\<rparr>"]
    by (simp add: eq)
next
  assume h: "cache s (''fx_'' @ f @ ''_'' @ t) = Some (T, v)" "\<not> truthy v"
  note m = get_cached_value_falsy [OF h, of e "''fx''"]
  show "cache_miss e (''fx_'' @ f @ ''_'' @ t) ''fx'' s"
    by (rule m)
  show eq: "get_fx_rate_internal e f t s = fetch_fx_rate e f t (s\<lparr>reads := Suc (reads s)\<rparr>)"
    by (simp only: get_fx_rate_internal_miss [OF m(1)] m(2))
  show "\<exists>rest. calls (snd (get_fx_rate_internal e f t s)) =
          calls s @ ExchangeRateLatest f # rest"
    using fetch_fx_rate_shape [of e f t "s\<lparr>reads := Suc (reads s)\<rparr>"]
    by (auto simp add: eq)
qed

theorem falsy_cached_value_refetched_witness:
  "cache falsy_cached ''bitcoin_aud'' = Some (0, JObj []) \<and> \<not> truthy (JObj []) \<and>
   get_bitcoin_price offline falsy_cached =
     fetch_bitcoin_price offline (falsy_cached\<lparr>reads := Suc (reads falsy_cached)\<rparr>) \<and>
   cache falsy_cached (''stock_'' @ ''SPY'') = Some (0, JNull) \<and> \<not> truthy JNull \<and>
   get_stock_price offline ''SPY'' falsy_cached =
     fetch_stock_price offline ''SPY'' (falsy_cached\<lparr>reads := Suc (reads falsy_cached)\<rparr>) \<and>
   cache falsy_cached (''fx_'' @ ''USD'' @ ''_'' @ ''AUD'') = Some (0, JFloat 0) \<and>
   \<not> truthy (JFloat 0) \<and>
   get_fx_rate_internal offline ''USD'' ''AUD'' falsy_cached =
     fetch_fx_rate offline ''USD'' ''AUD'' (falsy_cached\<lparr>reads := Suc (reads falsy_cached)\<rparr>)"
proof -
  have c: "cache falsy_cached ''bitcoin_aud'' = Some (0, JObj [])"
    "cache falsy_cached (''stock_'' @ ''SPY'') = Some (0, JNull)"
    "cache falsy_cached (''fx_'' @ ''USD'' @ ''_'' @ ''AUD'') = Some (0, JFloat 0)"
    by (simp_all add: falsy_cached_def)
  show ?thesis
    using c
      falsy_cached_value_refetched [of falsy_cached 0 "JObj []" offline "''SPY''" "''USD''" "''AUD''"]
      falsy_cached_value_refetched [of falsy_cached 0 JNull offline "''SPY''" "''USD''" "''AUD''"]
      falsy_cached_value_refetched [of falsy_cached 0 "JFloat 0" offline "''SPY''" "''USD''" "''AUD''"]
    by simp
qed

section \<open>What a lookup leaves in the cache\<close>

lemma get_cached_value_truthy:
  assumes "truthy (fst (get_cached_value e key category s))"
  shows "\<exists>T. cache s key = Some (T, fst (get_cached_value e key category s))"
proof (cases "cache s key")
  case None
  then show ?thesis
    using assms by (simp add: get_cached_value_absent)
next
  case (Some tv)
  obtain T v where tv: "tv = (T, v)"
    by (cases tv)
  show ?thesis
    using assms Some tv by (simp add: get_cached_value_entry split: if_splits)
qed

lemma truthy_results [simp]:
  "truthy (price_result p src)" "truthy (stock_result symbol p src)"
  by (simp_all add: price_result_def stock_result_def)

lemma stock_entry_success [simp]: "stock_entry symbol (stock_success e symbol q s)"
  by (simp add: stock_entry_def stock_success_def Let_def) blast

lemma stock_entry_fallback [simp]: "stock_entry symbol (stock_fallback e symbol s)"
  by (simp add: stock_entry_def stock_fallback_def Let_def) blast

lemma stock_entry_convert_quote [simp]: "stock_entry symbol (convert_quote e symbol q s)"
  by (simp add: convert_quote_def split: prod.splits option.splits)

lemma stock_entry_fetch_stock_price [simp]: "stock_entry symbol (fetch_stock_price e symbol s)"
  by (simp add: fetch_stock_price_def split: prod.splits option.splits)

lemma get_bitcoin_price_populates:
  "(\<exists>T. cache (snd (get_bitcoin_price e s)) ''bitcoin_aud''
           = Some (T, fst (get_bitcoin_price e s))) \<and>
   truthy (fst (get_bitcoin_price e s))"
proof (cases "cache_miss e ''bitcoin_aud'' ''bitcoin'' s")
  case True
  show ?thesis
    using fetch_bitcoin_price_shape [of e "snd (get_cached_value e ''bitcoin_aud'' ''bitcoin'' s)"]
    by (auto simp add: get_bitcoin_price_miss [OF True])
next
  case False
  then show ?thesis
    using get_cached_value_truthy [of e "''bitcoin_aud''" "''bitcoin''" s]
    by (simp add: get_bitcoin_price_hit cache_miss_def)
qed

lemma get_stock_price_populates:
  "(\<exists>T. cache (snd (get_stock_price e symbol s)) (''stock_'' @ symbol)
           = Some (T, fst (get_stock_price e symbol s))) \<and>
   truthy (fst (get_stock_price e symbol s))"
proof (cases "cache_miss e (''stock_'' @ symbol) ''stock'' s")
  case True
  show ?thesis
    using stock_entry_fetch_stock_price
      [of symbol e "snd (get_cached_value e (''stock_'' @ symbol) ''stock'' s)"]
    by (auto simp add: get_stock_price_miss [OF True] stock_entry_def)
next
  case False
  then show ?thesis
    using get_cached_value_truthy [of e "''stock_'' @ symbol" "''stock''" s]
    by (simp add: get_stock_price_hit cache_miss_def)
qed

lemma get_fx_rate_internal_populates:
  "\<exists>T. cache (snd (get_fx_rate_internal e f t s)) (''fx_'' @ f @ ''_'' @ t)
          = Some (T, fst (get_fx_rate_internal e f t s))"
proof (cases "cache_miss e (''fx_'' @ f @ ''_'' @ t) ''fx'' s")
  case True
  show ?thesis
    using fetch_fx_rate_shape
      [of e f t "snd (get_cached_value e (''fx_'' @ f @ ''_'' @ t) ''fx'' s)"]
    by (auto simp add: get_fx_rate_internal_miss [OF True])
next
  case False
  then show ?thesis
    using get_cached_value_truthy [of e "''fx_'' @ f @ ''_'' @ t" "''fx''" s]
    by (simp add: get_fx_rate_internal_hit cache_miss_def)
qed

section \<open>Repeated calls\<close>

text \<open>
  Claim C8, as the code has it: a lookup whose key holds a truthy value younger than
  the TTL of its category returns that value and changes nothing but the count of clock
  readings, so it issues no upstream request. Every call leaves under its key the value
  it returned; the results of the bitcoin and stock lookups are always truthy, an FX rate
  need not be (claim C10).
\<close>

theorem repeated_call_served_from_cache:
  "(cache s ''bitcoin_aud'' = Some (T, v) \<and> truthy v \<and>
    0 \<le> clock e (reads s) - T \<and> clock e (reads s) - T < 60 * 1000000 \<longrightarrow>
      get_bitcoin_price e s = (v, s\<lparr>reads := Suc (reads s)\<rparr>)) \<and>
   (cache s (''stock_'' @ symbol) = Some (T, v) \<and> truthy v \<and>
    0 \<le> clock e (reads s) - T \<and> clock e (reads s) - T < 300 * 1000000 \<longrightarrow>
      get_stock_price e symbol s = (v, s\<lparr>reads := Suc (reads s)\<rparr>)) \<and>
   (cache s (''fx_'' @ f @ ''_'' @ t) = Some (T, v) \<and> truthy v \<and>
    0 \<le> clock e (reads s) - T \<and> clock e (reads s) - T < 3600 * 1000000 \<longrightarrow>
      get_fx_rate_internal e f t s = (v, s\<lparr>reads := Suc (reads s)\<rparr>)) \<and>
   (\<exists>T'. cache (snd (get_bitcoin_price e s)) ''bitcoin_aud''
            = Some (T', fst (get_bitcoin_price e s))) \<and>
   truthy (fst (get_bitcoin_price e s)) \<and>
   (\<exists>T'. cache (snd (get_stock_price e symbol s)) (''stock_'' @ symbol)
            = Some (T', fst (get_stock_price e symbol s))) \<and>
   truthy (fst (get_stock_price e symbol s)) \<and>
   (\<exists>T'. cache (snd (get_fx_rate_internal e f t s)) (''fx_'' @ f @ ''_'' @ t)
            = Some (T', fst (get_fx_rate_internal e f t s)))"
proof -
  have hit: "get_cached_value e key category s = (v, s\<lparr>reads := Suc (reads s)\<rparr>) \<and>
             \<not> cache_miss e key category s"
    if "cache s key = Some (T, v)" "truthy v" "0 \<le> clock e (reads s) - T"
      "clock e (reads s) - T < ttl_of category * 1000000"
    for key category
    using get_cached_value_fresh_entry [OF that(1,3,4)] that(2)
    by (simp add: cache_miss_def)
  have "get_bitcoin_price e s = (v, s\<lparr>reads := Suc (reads s)\<rparr>)"
    if "cache s ''bitcoin_aud'' = Some (T, v)" "truthy v" "0 \<le> clock e (reads s) - T"
      "clock e (reads s) - T < 60 * 1000000"
    using hit [of "''bitcoin_aud''" "''bitcoin''"] that by (simp add: get_bitcoin_price_hit)
  moreover have "get_stock_price e symbol s = (v, s\<lparr>reads := Suc (reads s)\<rparr>)"
    if "cache s (''stock_'' @ symbol) = Some (T, v)" "truthy v" "0 \<le> clock e (reads s) - T"
      "clock e (reads s) - T < 300 * 1000000"
    using hit [of "''stock_'' @ symbol" "''stock''"] that by (simp add: get_stock_price_hit)
  moreover have "get_fx_rate_internal e f t s = (v, s\<lparr>reads := Suc (reads s)\<rparr>)"
    if "cache s (''fx_'' @ f @ ''_'' @ t) = Some (T, v)" "truthy v"
      "0 \<le> clock e (reads s) - T" "clock e (reads s) - T < 3600 * 1000000"
    using hit [of "''fx_'' @ f @ ''_'' @ t" "''fx''"] that
    by (simp add: get_fx_rate_internal_hit)
  ultimately show ?thesis
    using get_bitcoin_price_populates [of e s] get_stock_price_populates [of e symbol s]
      get_fx_rate_internal_populates [of e f t s]
    by blast
qed

theorem repeated_call_served_from_cache_witness:
  "cache (snd (get_bitcoin_price offline fresh)) ''bitcoin_aud''
     = Some (0, fst (get_bitcoin_price offline fresh)) \<and>
   truthy (fst (get_bitcoin_price offline fresh)) \<and>
   get_bitcoin_price offline (snd (get_bitcoin_price offline fresh)) =
     (fst (get_bitcoin_price offline fresh),
      (snd (get_bitcoin_price offline fresh))\<lparr>reads := 2\<rparr>) \<and>
   cache (snd (get_stock_price offline ''SPY'' fresh)) (''stock_'' @ ''SPY'')
     = Some (0, fst (get_stock_price offline ''SPY'' fresh)) \<and>
   truthy (fst (get_stock_price offline ''SPY'' fresh)) \<and>
   get_stock_price offline ''SPY'' (snd (get_stock_price offline ''SPY'' fresh)) =
     (fst (get_stock_price offline ''SPY'' fresh),
      (snd (get_stock_price offline ''SPY'' fresh))\<lparr>reads := 2\<rparr>) \<and>
   cache (snd (get_fx_rate_internal offline ''USD'' ''AUD'' fresh)) (''fx_'' @ ''USD'' @ ''_'' @ ''AUD'')
     = Some (0, JFloat 1.48) \<and>
   truthy (JFloat 1.48) \<and>
   get_fx_rate_internal offline ''USD'' ''AUD'' (snd (get_fx_rate_internal offline ''USD'' ''AUD'' fresh)) =
     (JFloat 1.48, (snd (get_fx_rate_internal offline ''USD'' ''AUD'' fresh))\<lparr>reads := 2\<rparr>)"
proof -
  have down: "http offline k u = NetworkError" for k u
    by (simp add: offline_def)
  have zero: "clock offline k = 0" for k
    by (simp add: offline_def)
  have m: "cache_miss offline ''bitcoin_aud'' ''bitcoin'' fresh"
    "cache_miss offline (''stock_'' @ ''SPY'') ''stock'' fresh"
    "cache_miss offline (''fx_'' @ ''USD'' @ ''_'' @ ''AUD'') ''fx'' fresh"
    by (simp_all add: cache_miss_absent fresh_def)
  have g: "snd (get_cached_value offline key category fresh) = fresh" for key category
    by (simp add: get_cached_value_absent fresh_def)
  have b: "get_bitcoin_price offline fresh =
             (price_result (JInt 170000) ''fallback'',
              set_cache offline ''bitcoin_aud'' (price_result (JInt 170000) ''fallback'')
                (fresh\<lparr>calls := [CoinGeckoSimplePrice, CoinDeskTicker,
                                   AlphaVantageExchangeRate ''BTC'' ''AUD'']\<rparr>))"
    using fetch_bitcoin_price_fallback [of offline fresh]
    by (simp add: get_bitcoin_price_miss [OF m(1)] g down) (simp add: fresh_def)
  have st: "get_stock_price offline ''SPY'' fresh =
             (stock_result ''SPY'' (JFloat 860) ''fallback'',
              set_cache offline (''stock_'' @ ''SPY'') (stock_result ''SPY'' (JFloat 860) ''fallback'')
                (fresh\<lparr>calls := [AlphaVantageGlobalQuote (clean_symbol ''SPY'')]\<rparr>))"
    by (simp add: get_stock_price_miss [OF m(2)] g fetch_stock_price_def requests_get_simp down
        stock_fallback_def fallback_prices_def Let_def)
      (simp add: fresh_def)
  have fx: "get_fx_rate_internal offline ''USD'' ''AUD'' fresh =
             (JFloat 1.48,
              set_cache offline (''fx_'' @ ''USD'' @ ''_'' @ ''AUD'') (JFloat 1.48)
                (fresh\<lparr>calls := [ExchangeRateLatest ''USD'',
                                   AlphaVantageExchangeRate ''USD'' ''AUD'']\<rparr>))"
    using fetch_fx_rate_fallback [of "''AUD''" offline fresh "''USD''"]
    by (simp add: get_fx_rate_internal_miss [OF m(3)] g down default_rates_def) (simp add: fresh_def)
  have r: "reads fresh = 0"
    by (simp add: fresh_def)
  show ?thesis
    using repeated_call_served_from_cache
        [of "snd (get_bitcoin_price offline fresh)" 0 "fst (get_bitcoin_price offline fresh)"
          offline "''SPY''" "''USD''" "''AUD''"]
      repeated_call_served_from_cache
        [of "snd (get_stock_price offline ''SPY'' fresh)" 0
          "fst (get_stock_price offline ''SPY'' fresh)" offline "''SPY''" "''USD''" "''AUD''"]
      repeated_call_served_from_cache
        [of "snd (get_fx_rate_internal offline ''USD'' ''AUD'' fresh)" 0 "JFloat 1.48"
          offline "''SPY''" "''USD''" "''AUD''"]
    unfolding b st fx
    by (simp add: zero r)
qed


text \<open>
  Claim C8 as stated fails for an FX rate of 0: the first provider answers with the rate
  0, the lookup caches it, and a second call at the same clock time, well within the TTL
  of one hour, requests the provider again.
\<close>

theorem zero_rate_refetched_within_ttl:
  "cache (snd (get_fx_rate_internal zero_rate ''USD'' ''AUD'' fresh)) ''fx_USD_AUD''
     = Some (0, JInt 0) \<and>
   clock zero_rate (reads (snd (get_fx_rate_internal zero_rate ''USD'' ''AUD'' fresh))) - 0
     < 3600 * 1000000 \<and>
   calls (snd (get_fx_rate_internal zero_rate ''USD'' ''AUD'' fresh))
     = [ExchangeRateLatest ''USD''] \<and>
   calls (snd (get_fx_rate_internal zero_rate ''USD'' ''AUD''
                (snd (get_fx_rate_internal zero_rate ''USD'' ''AUD'' fresh))))
     = [ExchangeRateLatest ''USD'', ExchangeRateLatest ''USD'']"
proof -
  have rate: "exchangerate_rate ''AUD'' (http zero_rate k (ExchangeRateLatest ''USD''))
                = Some (JInt 0)" for k
    by (simp add: zero_rate_def exchangerate_rate_def)
  have zero: "clock zero_rate k = 0" for k
    by (simp add: zero_rate_def)
  have first: "get_fx_rate_internal zero_rate ''USD'' ''AUD'' fresh =
                 (JInt 0, \<lparr>cache = [''fx_USD_AUD'' \<mapsto> (0, JInt 0)], reads = Suc 0,
                           calls = [ExchangeRateLatest ''USD'']\<rparr>)"
    by (simp add: get_fx_rate_internal_def get_cached_value_def fresh_def fetch_fx_rate_def
        requests_get_simp rate set_cache_def now_def zero)
  have second: "get_fx_rate_internal zero_rate ''USD'' ''AUD''
                  \<lparr>cache = [''fx_USD_AUD'' \<mapsto> (0, JInt 0)], reads = Suc 0,
                    calls = [ExchangeRateLatest ''USD'']\<rparr> =
                 (JInt 0, \<lparr>cache = [''fx_USD_AUD'' \<mapsto> (0, JInt 0)], reads = Suc (Suc (Suc 0)),
                           calls = [ExchangeRateLatest ''USD'', ExchangeRateLatest ''USD'']\<rparr>)"
    by (simp add: get_fx_rate_internal_def get_cached_value_def fetch_fx_rate_def
        requests_get_simp rate set_cache_def now_def zero)
  show ?thesis
    by (simp add: first second zero)
qed

section \<open>Currency conversion and source of a stock price\<close>



lemma fst_stock_success [simp]:
  "fst (stock_success e symbol p s) = stock_result symbol (JFloat p) ''Alpha Vantage''"
  by (simp add: stock_success_def Let_def)

lemma fst_stock_fallback [simp]:
  "fst (stock_fallback e symbol s) =
     stock_result symbol
       (case fallback_prices symbol of Some x \<Rightarrow> JFloat x | None \<Rightarrow> JInt 100) ''fallback''"
  by (simp add: stock_fallback_def Let_def)




lemma cache_quoted [simp]: "cache (quoted e symbol s) = cache s"
  by (simp add: quoted_def requests_get_simp)





lemma float_mul_defined:
  "float_mul p r \<noteq> None \<longleftrightarrow> (\<exists>x. r = JFloat x) \<or> (\<exists>i. r = JInt i) \<or> (\<exists>b. r = JBool b)"
  by (cases r) simp_all

lemma source_stock_result [simp]:
  "subscript (stock_result symbol p src) ''source'' = Some (JStr src)"
  "subscript (stock_result symbol p src) ''price'' = Some p"
  by (simp_all add: stock_result_def)






section \<open>The cache invariant\<close>

lemma cache_ok_empty [simp]: "cache_ok Map.empty"
  by (simp add: cache_ok_def)

lemma cache_ok_priced:
  "cache_ok c \<Longrightarrow> priced v \<Longrightarrow> cache_ok (c(k \<mapsto> (t, v)))"
  by (simp add: cache_ok_def)

lemma cache_ok_fx: "cache_ok c \<Longrightarrow> cache_ok (c(''fx_'' @ f @ ''_'' @ t \<mapsto> (T, v)))"
  by (simp add: cache_ok_def)

lemma priced_results [simp]:
  "priced (price_result p src)" "priced (stock_result symbol p src)"
  by (simp_all add: priced_def price_result_def stock_result_def)

lemma cache_ok_get_fx_rate_internal:
  assumes "cache_ok (cache s)"
  shows "cache_ok (cache (snd (get_fx_rate_internal e f t s)))"
proof (cases "cache_miss e (''fx_'' @ f @ ''_'' @ t) ''fx'' s")
  case True
  show ?thesis
    using fetch_fx_rate_shape
      [of e f t "snd (get_cached_value e (''fx_'' @ f @ ''_'' @ t) ''fx'' s)"] assms
    by (auto simp add: get_fx_rate_internal_miss [OF True] cache_ok_fx simp del: append.simps)
next
  case False
  then show ?thesis
    using assms by (simp add: get_fx_rate_internal_hit)
qed

lemma cache_ok_stock_success:
  "cache_ok (cache s) \<Longrightarrow> cache_ok (cache (snd (stock_success e symbol p s)))"
  by (simp add: stock_success_def Let_def cache_ok_priced del: append.simps)

lemma cache_ok_stock_fallback:
  "cache_ok (cache s) \<Longrightarrow> cache_ok (cache (snd (stock_fallback e symbol s)))"
  by (simp add: stock_fallback_def Let_def cache_ok_priced del: append.simps)

lemma cache_ok_convert_quote:
  assumes "cache_ok (cache s)"
  shows "cache_ok (cache (snd (convert_quote e symbol p s)))"
  using assms cache_ok_get_fx_rate_internal [OF assms, of e]
  by (auto simp add: convert_quote_def cache_ok_stock_success cache_ok_stock_fallback
      split: prod.splits option.splits dest: sndI)


lemma get_cached_value_priced:
  assumes "cache_ok (cache s)" "truthy (fst (get_cached_value e key category s))"
    and "key = ''bitcoin_aud'' \<or> prefix ''stock_'' key"
  shows "priced (fst (get_cached_value e key category s))"
  using get_cached_value_truthy [OF assms(2)] assms(1,3)
  unfolding cache_ok_def by blast

lemma get_stock_price_ok:
  assumes "cache_ok (cache s)"
  shows "cache_ok (cache (snd (get_stock_price e symbol s))) \<and>
         priced (fst (get_stock_price e symbol s))"
proof (cases "cache_miss e (''stock_'' @ symbol) ''stock'' s")
  case True
  let ?s0 = "snd (get_cached_value e (''stock_'' @ symbol) ''stock'' s)"
  let ?u = "AlphaVantageGlobalQuote (clean_symbol symbol)"
  have ok: "cache_ok (cache (snd (requests_get e ?u ?s0)))"
    using assms by (simp add: requests_get_simp)
  have "cache_ok (cache (snd (fetch_stock_price e symbol ?s0)))"
    using cache_ok_convert_quote [OF ok] cache_ok_stock_fallback [OF ok]
    by (simp add: fetch_stock_price_def case_prod_beta split: option.splits)
  moreover have "priced (fst (fetch_stock_price e symbol ?s0))"
    using stock_entry_fetch_stock_price [of symbol e ?s0]
    by (auto simp add: stock_entry_def)
  ultimately show ?thesis
    by (simp add: get_stock_price_miss [OF True])
next
  case False
  then show ?thesis
    using assms get_cached_value_priced [OF assms, of e "''stock_'' @ symbol" "''stock''"]
    by (simp add: get_stock_price_hit cache_miss_def)
qed

lemma get_bitcoin_price_ok:
  assumes "cache_ok (cache s)"
  shows "cache_ok (cache (snd (get_bitcoin_price e s))) \<and>
         priced (fst (get_bitcoin_price e s))"
proof (cases "cache_miss e ''bitcoin_aud'' ''bitcoin'' s")
  case True
  show ?thesis
    using fetch_bitcoin_price_shape [of e "snd (get_cached_value e ''bitcoin_aud'' ''bitcoin'' s)"]
      assms
    by (auto simp add: get_bitcoin_price_miss [OF True] cache_ok_priced)
next
  case False
  then show ?thesis
    using assms get_cached_value_priced [OF assms, of e "''bitcoin_aud''" "''bitcoin''"]
    by (simp add: get_bitcoin_price_hit cache_miss_def)
qed

section \<open>Completeness of the portfolio\<close>

lemma stock_prices_complete:
  assumes "cache_ok (cache s)" "list_all holding_ok holdings"
  shows "\<exists>rs s'. stock_prices e holdings results s = (Inr rs, s') \<and>
           cache_ok (cache s') \<and>
           dom (map_of rs) = dom (map_of results) \<union> set (stock_symbols holdings) \<and>
           (\<forall>k. k \<notin> set (stock_symbols holdings) \<longrightarrow> map_of rs k = map_of results k)"
  using assms
proof (induction holdings arbitrary: results s)
  case Nil
  then show ?case by simp
next
  case (Cons h hs)
  from Cons.prems(2) have h: "holding_ok h" and hs: "list_all holding_ok hs"
    by simp_all
  from h obtain ty where ty: "subscript h ''type'' = Some ty"
    by (auto simp add: holding_ok_def split: option.splits)
  show ?case
  proof (cases "ty = JStr ''crypto''")
    case True
    then show ?thesis
      using Cons.IH [OF Cons.prems(1) hs, of results] ty by simp
  next
    case False
    with h ty obtain symbol where sym: "subscript h ''symbol'' = Some (JStr symbol)"
      by (auto simp add: holding_ok_def split: option.splits json.splits)
    obtain stock_data s1 where g: "get_stock_price e symbol s = (stock_data, s1)"
      by (cases "get_stock_price e symbol s")
    from get_stock_price_ok [OF Cons.prems(1), of e symbol] g
    have ok1: "cache_ok (cache s1)" and "priced stock_data"
      by simp_all
    then obtain p where p: "subscript stock_data ''price'' = Some p"
      by (auto simp add: priced_def)
    from Cons.IH [OF ok1 hs, of "AList.update symbol p results"]
    obtain rs s' where
      r: "stock_prices e hs (AList.update symbol p results) s1 = (Inr rs, s')"
      and ok: "cache_ok (cache s')"
      and d: "dom (map_of rs) =
                dom (map_of (AList.update symbol p results)) \<union> set (stock_symbols hs)"
      and f: "\<forall>k. k \<notin> set (stock_symbols hs) \<longrightarrow>
                map_of rs k = map_of (AList.update symbol p results) k"
      by blast
    have "stock_prices e (h # hs) results s = (Inr rs, s')"
      using ty False sym g p r by simp
    moreover have "dom (map_of rs) = dom (map_of results) \<union> set (stock_symbols (h # hs))"
      using d ty False sym by (auto simp add: update_conv')
    moreover have "\<forall>k. k \<notin> set (stock_symbols (h # hs)) \<longrightarrow> map_of rs k = map_of results k"
      using f ty False sym by (auto simp add: update_conv')
    ultimately show ?thesis
      using ok by blast
  qed
qed


text \<open>
  Claim C5, as the code has it: for holdings that are dicts with a \<open>type\<close> and,
  unless it is \<open>crypto\<close>, a string \<open>symbol\<close>, and a cache that the service itself
  has built, the aggregation returns a result whatever the providers answer, and the keys
  of its price map are \<open>BTC\<close>, \<open>fx_rates\<close>, \<open>SPY\<close> and the symbol of every
  holding that is not crypto. \<open>fx_rates\<close> holds the map with the keys \<open>USD\<close> and
  \<open>EUR\<close> unless a stock holding is itself named \<open>fx_rates\<close>.
\<close>

theorem portfolio_complete:
  assumes "cache_ok (cache s)" and "list_all holding_ok holdings"
  shows "\<exists>r s'. get_portfolio_prices e holdings s = (Inr r, s') \<and>
           cache_ok (cache s') \<and>
           dom (map_of (prices r)) =
             {''BTC'', ''fx_rates'', ''SPY''} \<union> set (stock_symbols holdings) \<and>
           (''fx_rates'' \<notin> set (stock_symbols holdings) \<longrightarrow>
              (\<exists>usd eur. map_of (prices r) ''fx_rates''
                  = Some (JObj [(''USD'', usd), (''EUR'', eur)])))"
proof -
  obtain btc_data s1 where b: "get_bitcoin_price e s = (btc_data, s1)"
    by (cases "get_bitcoin_price e s")
  from get_bitcoin_price_ok [OF assms(1), of e] b
  have ok1: "cache_ok (cache s1)" and "priced btc_data"
    by simp_all
  then obtain btc where btc: "subscript btc_data ''price'' = Some btc"
    by (auto simp add: priced_def)
  obtain usd s2 where u: "get_fx_rate_internal e ''USD'' ''AUD'' s1 = (usd, s2)"
    by (cases "get_fx_rate_internal e ''USD'' ''AUD'' s1")
  obtain eur s3 where eu: "get_fx_rate_internal e ''EUR'' ''AUD'' s2 = (eur, s3)"
    by (cases "get_fx_rate_internal e ''EUR'' ''AUD'' s2")
  have ok2: "cache_ok (cache s2)"
    using cache_ok_get_fx_rate_internal [OF ok1, of e "''USD''" "''AUD''"] u by simp
  have ok3: "cache_ok (cache s3)"
    using cache_ok_get_fx_rate_internal [OF ok2, of e "''EUR''" "''AUD''"] eu by simp
  let ?fx = "JObj [(''USD'', usd), (''EUR'', eur)]"
  let ?results = "AList.update ''fx_rates'' ?fx (AList.update ''BTC'' btc [])"
  from stock_prices_complete [OF ok3 assms(2), of e ?results]
  obtain rs s4 where
    l: "stock_prices e holdings ?results s3 = (Inr rs, s4)"
    and ok4: "cache_ok (cache s4)"
    and d: "dom (map_of rs) = dom (map_of ?results) \<union> set (stock_symbols holdings)"
    and f: "\<forall>k. k \<notin> set (stock_symbols holdings) \<longrightarrow> map_of rs k = map_of ?results k"
    by blast
  obtain spy_data s5 where sp: "get_stock_price e ''SPY'' s4 = (spy_data, s5)"
    by (cases "get_stock_price e ''SPY'' s4")
  from get_stock_price_ok [OF ok4, of e "''SPY''"] sp
  have ok5: "cache_ok (cache s5)" and "priced spy_data"
    by simp_all
  then obtain spy where spy: "subscript spy_data ''price'' = Some spy"
    by (auto simp add: priced_def)
  let ?r = "\<lparr>prices = AList.update ''SPY'' spy rs, timestamp = clock e (reads s5),
             items_cached = card (dom (cache s5)),
             bitcoin_source = (case subscript btc_data ''source'' of
                                 Some src \<Rightarrow> src | None \<Rightarrow> JStr ''unknown'')\<rparr>"
  have "get_portfolio_prices e holdings s = (Inr ?r, s5\<lparr>reads := Suc (reads s5)\<rparr>)"
    using b btc u eu l sp spy by (simp add: get_portfolio_prices_def now_def)
  moreover have "cache_ok (cache (s5\<lparr>reads := Suc (reads s5)\<rparr>))"
    using ok5 by simp
  moreover have "dom (map_of (prices ?r)) =
                   {''BTC'', ''fx_rates'', ''SPY''} \<union> set (stock_symbols holdings)"
    using d by (auto simp add: update_conv')
  moreover have "''fx_rates'' \<notin> set (stock_symbols holdings) \<longrightarrow>
                   map_of (prices ?r) ''fx_rates'' = Some ?fx"
    using f by (simp add: update_conv')
  ultimately show ?thesis
    by blast
qed

theorem portfolio_complete_witness:
  "cache_ok (cache fresh) \<and>
   list_all holding_ok [JObj [(''symbol'', JStr ''FAKE''), (''type'', JStr ''stock'')],
                        JObj [(''type'', JStr ''crypto'')]] \<and>
   (\<exists>r s'. get_portfolio_prices offline
               [JObj [(''symbol'', JStr ''FAKE''), (''type'', JStr ''stock'')],
                JObj [(''type'', JStr ''crypto'')]] fresh = (Inr r, s') \<and>
            dom (map_of (prices r)) = {''BTC'', ''fx_rates'', ''SPY'', ''FAKE''} \<and>
            (\<exists>usd eur. map_of (prices r) ''fx_rates''
                = Some (JObj [(''USD'', usd), (''EUR'', eur)])))"
proof -
  let ?hs = "[JObj [(''symbol'', JStr ''FAKE''), (''type'', JStr ''stock'')],
              JObj [(''type'', JStr ''crypto'')]]"
  have c: "cache_ok (cache fresh)"
    by (simp add: fresh_def)
  have h: "list_all holding_ok ?hs"
    by (simp add: holding_ok_def)
  have sy: "stock_symbols ?hs = [''FAKE'']"
    by simp
  show ?thesis
    using c h portfolio_complete [OF c h, of offline]
    unfolding sy by auto
qed

text \<open>
  Claim C5 as stated fails for a stock holding whose symbol is \<open>fx_rates\<close>: its
  price is written over the map of FX rates, so the result has no \<open>fx_rates.USD\<close> and
  no \<open>fx_rates.EUR\<close>.
\<close>

theorem holding_named_fx_rates_replaces_rates:
  "list_all holding_ok [JObj [(''symbol'', JStr ''fx_rates''), (''type'', JStr ''stock'')]] \<and>
   fst (get_portfolio_prices offline
          [JObj [(''symbol'', JStr ''fx_rates''), (''type'', JStr ''stock'')]] fresh) =
     Inr \<lparr>prices = [(''BTC'', JInt 170000), (''fx_rates'', JInt 100), (''SPY'', JFloat 860)],
          timestamp = 0, items_cached = 5, bitcoin_source = JStr ''fallback''\<rparr> \<and>
   subscript (JInt 100) ''USD'' = None \<and> subscript (JInt 100) ''EUR'' = None"
proof -
  have down: "http offline k u = NetworkError" for k u
    by (simp add: offline_def)
  have zero: "clock offline k = 0" for k
    by (simp add: offline_def)
  have m: "cache s key = None \<Longrightarrow> get_cached_value offline key category s = (JNull, s)"
    for s key category
    by (simp add: get_cached_value_absent)
  show ?thesis
    by (simp add: holding_ok_def get_portfolio_prices_def get_bitcoin_price_def
        get_fx_rate_internal_def get_stock_price_def fetch_bitcoin_price_def fetch_fx_rate_def
        fetch_stock_price_def stock_fallback_def requests_get_simp down zero m fresh_def
        set_cache_def now_def Let_def price_result_def stock_result_def default_rates_def
        fallback_prices_def)
qed


text \<open>
  A holding outside \<open>holding_ok\<close> ends the request with the exception of the failing
  subscript, after the bitcoin and FX lookups have run.
\<close>

lemma holding_without_type_raises:
  "fst (get_portfolio_prices offline [JObj [(''symbol'', JStr ''FAKE'')]] fresh)
     = Inl (KeyError ''type'')"
proof -
  have down: "http offline k u = NetworkError" for k u
    by (simp add: offline_def)
  have m: "cache s key = None \<Longrightarrow> get_cached_value offline key category s = (JNull, s)"
    for s key category
    by (simp add: get_cached_value_absent)
  show ?thesis
    by (simp add: get_portfolio_prices_def get_bitcoin_price_def get_fx_rate_internal_def
        fetch_bitcoin_price_def fetch_fx_rate_def requests_get_simp down m fresh_def
        set_cache_def now_def Let_def price_result_def default_rates_def)
qed

end
